theory Spec2Isabelle
  imports Main
begin

section \<open>Data model\<close>

text \<open>
  Python's \<open>str\<close> is a sequence of Unicode code points, so it is modelled as a list of
  natural numbers; \<open>lit\<close> embeds an ASCII literal of the source. Python's \<open>bytes\<close> is a
  list of 8-bit characters.
\<close>

type_synonym str = "nat list"
type_synonym bytes = "char list"

definition lit :: "string \<Rightarrow> str" where
  "lit s = map of_char s"

text \<open>
  A decoded JSON document, as \<open>response.json()\<close> returns it: \<open>None\<close>, \<open>bool\<close>,
  an \<open>int\<close>, a \<open>float\<close>, \<open>str\<close>, \<open>list\<close> or \<open>dict\<close>. A \<open>dict\<close> is the list of its
  items (its keys are distinct, so \<open>map_of\<close> is its lookup). No handler computes with a
  number, so a \<open>float\<close> is kept as its mantissa and binary exponent.
\<close>

datatype json =
    JNull
  | JBool bool
  | JNum int
  | JFloat int int
  | JStr str
  | JArr "json list"
  | JObj "(str \<times> json) list"

text \<open>
  The exceptions the handlers distinguish: \<open>requests.RequestException\<close> (with its
  \<open>str(e)\<close>), \<open>fastapi.HTTPException\<close> (status code and detail; a subclass of
  \<open>Exception\<close>, not of \<open>RequestException\<close>) and every other \<open>Exception\<close>
  (class name and \<open>str(e)\<close>).
\<close>

datatype exn =
    RequestException str
  | HTTPException int str
  | PyError str str

text \<open>The pydantic request bodies.\<close>

record StoryRequest =
  prompt :: str

record NarrationRequest =
  text' :: str

text \<open>
  One call of \<open>requests.post(url, headers=..., json=...)\<close> and the response object it
  returns: \<open>status_code\<close>, \<open>text\<close>, \<open>content\<close>, and the outcome of \<open>json()\<close>, which
  raises when the body is not JSON.
\<close>

record outbound =
  url :: str
  headers :: "(str \<times> str) list"
  json_body :: json

record response =
  status_code :: int
  response_text :: str
  content :: bytes
  json_result :: "exn + json"

text \<open>
  What the handlers can touch outside their arguments: the outbound calls made so far
  and the files on disk. Writing a file can fail with an \<open>OSError\<close>: \<open>faults\<close> says,
  for a path, whether \<open>open(path, "wb")\<close> raises (a directory at the path, no
  permission), or \<open>open\<close> succeeds and the write raises after some bytes (a full disk);
  each carries the \<open>str(e)\<close> of the error.
\<close>

datatype fault =
    OpenFails str
  | WriteFails str nat

record world =
  calls :: "outbound list"
  files :: "str \<rightharpoonup> bytes"
  faults :: "str \<rightharpoonup> fault"

text \<open>The module globals set when the module is imported.\<close>

record settings =
  GEMINI_API_KEY :: str
  DEEPGRAM_API_KEY :: str

text \<open>
  What a handler returns to FastAPI: a \<open>dict\<close>, or
  \<open>FileResponse(path, media_type=..., filename=...)\<close>.
\<close>

datatype ret =
    Dict "(str \<times> json) list"
  | FileResponse str str str

section \<open>Python primitives\<close>

text \<open>
  \<open>str.isspace\<close> on one code point and \<open>str.strip()\<close>: the white space of CPython's
  Unicode database.
\<close>

definition isspace :: "nat \<Rightarrow> bool" where
  "isspace c =
     ((9 \<le> c \<and> c \<le> 13) \<or> (28 \<le> c \<and> c \<le> 32) \<or> c = 133 \<or> c = 160 \<or> c = 5760 \<or>
      (8192 \<le> c \<and> c \<le> 8202) \<or> c = 8232 \<or> c = 8233 \<or> c = 8239 \<or> c = 8287 \<or>
      c = 12288)"

definition strip :: "str \<Rightarrow> str" where
  "strip s = rev (dropWhile isspace (rev (dropWhile isspace s)))"

text \<open>The name of a value's type, as it appears in Python's error messages.\<close>

fun type_name :: "json \<Rightarrow> str" where
  "type_name JNull = lit ''NoneType''"
| "type_name (JBool b) = lit ''bool''"
| "type_name (JNum n) = lit ''int''"
| "type_name (JFloat m e) = lit ''float''"
| "type_name (JStr s) = lit ''str''"
| "type_name (JArr xs) = lit ''list''"
| "type_name (JObj kvs) = lit ''dict''"

text \<open>\<open>v.get(key, default)\<close>: only a \<open>dict\<close> has the method.\<close>

fun py_get :: "json \<Rightarrow> str \<Rightarrow> json \<Rightarrow> exn + json" where
  "py_get (JObj kvs) key dflt = Inr (case map_of kvs key of None \<Rightarrow> dflt | Some v \<Rightarrow> v)"
| "py_get v key dflt =
     Inl (PyError (lit ''AttributeError'')
            (lit [CHR 0x27] @ type_name v @ lit [CHR 0x27] @ lit '' object has no attribute ''
               @ lit [CHR 0x27] @ lit ''get'' @ lit [CHR 0x27]))"

text \<open>
  \<open>v[0]\<close>: the first element of a list, the first character of a string, a
  \<open>KeyError\<close> on a \<open>dict\<close> (the keys of a JSON object are strings), a \<open>TypeError\<close>
  on anything else.
\<close>

fun py_index0 :: "json \<Rightarrow> exn + json" where
  "py_index0 (JArr []) = Inl (PyError (lit ''IndexError'') (lit ''list index out of range''))"
| "py_index0 (JArr (x # xs)) = Inr x"
| "py_index0 (JStr []) = Inl (PyError (lit ''IndexError'') (lit ''string index out of range''))"
| "py_index0 (JStr (c # cs)) = Inr (JStr [c])"
| "py_index0 (JObj kvs) = Inl (PyError (lit ''KeyError'') (lit ''0''))"
| "py_index0 v =
     Inl (PyError (lit ''TypeError'')
            (lit [CHR 0x27] @ type_name v @ lit [CHR 0x27] @ lit '' object is not subscriptable''))"

text \<open>
  \<open>str(e)\<close> for a caught exception. What \<open>str\<close> gives for an \<open>HTTPException\<close> is
  decided by the installed Starlette, so it is a parameter.
\<close>

fun str_exn :: "(int \<Rightarrow> str \<Rightarrow> str) \<Rightarrow> exn \<Rightarrow> str" where
  "str_exn hstr (RequestException m) = m"
| "str_exn hstr (HTTPException s d) = hstr s d"
| "str_exn hstr (PyError c m) = m"

text \<open>
  Current Starlette defines \<open>HTTPException.__str__\<close> as
  \<open>f"{self.status_code}: {self.detail}"\<close>; \<open>str_int\<close> is Python's decimal rendering.
\<close>

function str_nat :: "nat \<Rightarrow> str" where
  "str_nat n = (if n < 10 then [48 + n] else str_nat (n div 10) @ [48 + n mod 10])"
  by pat_completeness auto
termination
  by (relation "measure id") auto

declare str_nat.simps [simp del]

definition str_int :: "int \<Rightarrow> str" where
  "str_int i = (if i < 0 then 45 # str_nat (nat (- i)) else str_nat (nat i))"

definition starlette_str :: "int \<Rightarrow> str \<Rightarrow> str" where
  "starlette_str s d = str_int s @ lit '': '' @ d"

section \<open>Start-up\<close>

text \<open>
  \<open>load_dotenv()\<close> adds the variables of the \<open>.env\<close> file to the environment without
  replacing one that is already set; \<open>os.getenv\<close> is then a lookup. \<open>not v\<close> holds for
  \<open>None\<close> and for the empty string.
\<close>

definition load_dotenv :: "(str \<rightharpoonup> str) \<Rightarrow> (str \<rightharpoonup> str) \<Rightarrow> (str \<rightharpoonup> str)" where
  "load_dotenv dotenv environ = dotenv ++ environ"

definition py_not :: "str option \<Rightarrow> bool" where
  "py_not v = (case v of None \<Rightarrow> True | Some s \<Rightarrow> s = [])"

definition startup :: "(str \<rightharpoonup> str) \<Rightarrow> (str \<rightharpoonup> str) \<Rightarrow> exn + settings" where
  "startup dotenv environ =
     (let env = load_dotenv dotenv environ;
          gemini = env (lit ''GEMINI_API_KEY'');
          deepgram = env (lit ''DEEPGRAM_API_KEY'')
      in if py_not gemini \<or> py_not deepgram
         then Inl (PyError (lit ''ValueError'') (lit ''Missing API keys! Check your .env file.''))
         else Inr \<lparr>GEMINI_API_KEY = the gemini, DEEPGRAM_API_KEY = the deepgram\<rparr>)"

section \<open>The generation handler\<close>

definition generate_call :: "settings \<Rightarrow> StoryRequest \<Rightarrow> outbound" where
  "generate_call cfg request =
     \<lparr>url = lit ''https://generativelanguage.googleapis.com/v1beta/models/gemini-1.5-flash:generateContent?key=''
              @ GEMINI_API_KEY cfg,
      headers = [(lit ''Content-Type'', lit ''application/json'')],
      json_body =
        JObj [(lit ''contents'',
               JArr [JObj [(lit ''parts'', JArr [JObj [(lit ''text'', JStr (prompt request))]])]])]\<rparr>"

text \<open>The chain of \<open>.get\<close> and \<open>[0]\<close> that extracts the story text.\<close>

definition extract_story :: "json \<Rightarrow> exn + json" where
  "extract_story response_data =
     (case py_get response_data (lit ''candidates'') (JArr [JObj []]) of
        Inl e \<Rightarrow> Inl e
      | Inr candidates \<Rightarrow>
     (case py_index0 candidates of
        Inl e \<Rightarrow> Inl e
      | Inr candidate \<Rightarrow>
     (case py_get candidate (lit ''content'') (JObj []) of
        Inl e \<Rightarrow> Inl e
      | Inr cont \<Rightarrow>
     (case py_get cont (lit ''parts'') (JArr [JObj []]) of
        Inl e \<Rightarrow> Inl e
      | Inr parts \<Rightarrow>
     (case py_index0 parts of
        Inl e \<Rightarrow> Inl e
      | Inr part \<Rightarrow> py_get part (lit ''text'') (JStr (lit ''No story generated.'')))))))"

text \<open>The body of the \<open>try\<close> block, once \<open>requests.post\<close> has come back.\<close>

definition generate_try :: "exn + response \<Rightarrow> exn + ret" where
  "generate_try posted =
     (case posted of
        Inl e \<Rightarrow> Inl e
      | Inr resp \<Rightarrow>
          if status_code resp \<noteq> 200
          then Inl (HTTPException (status_code resp) (lit ''Gemini API Error: '' @ response_text resp))
          else (case json_result resp of
                  Inl e \<Rightarrow> Inl e
                | Inr response_data \<Rightarrow>
                    (case extract_story response_data of
                       Inl e \<Rightarrow> Inl e
                     | Inr story \<Rightarrow> Inr (Dict [(lit ''story'', story)]))))"

text \<open>
  The two \<open>except\<close> clauses, in the source's order: \<open>RequestException\<close> first, then
  every other \<open>Exception\<close>, the \<open>HTTPException\<close> raised inside the \<open>try\<close> included.
\<close>

fun generate_except :: "(int \<Rightarrow> str \<Rightarrow> str) \<Rightarrow> exn + ret \<Rightarrow> exn + ret" where
  "generate_except hstr (Inr r) = Inr r"
| "generate_except hstr (Inl (RequestException m)) =
     Inl (HTTPException 500 (lit ''Failed to connect to Gemini API: '' @ m))"
| "generate_except hstr (Inl e) =
     Inl (HTTPException 500 (lit ''An unexpected error occurred: '' @ str_exn hstr e))"

definition generate_story ::
  "(int \<Rightarrow> str \<Rightarrow> str) \<Rightarrow> (outbound \<Rightarrow> exn + response) \<Rightarrow> settings \<Rightarrow> StoryRequest \<Rightarrow> world
     \<Rightarrow> (exn + ret) \<times> world" where
  "generate_story hstr post cfg request w =
     (if prompt request = []
      then (Inl (HTTPException 400 (lit ''Prompt is required'')), w)
      else (generate_except hstr (generate_try (post (generate_call cfg request))),
            w\<lparr>calls := calls w @ [generate_call cfg request]\<rparr>))"

section \<open>The narration handler\<close>

definition narrate_call :: "settings \<Rightarrow> NarrationRequest \<Rightarrow> outbound" where
  "narrate_call cfg request =
     \<lparr>url = lit ''https://api.deepgram.com/v1/speak?model=aura-asteria-en&encoding=linear16&sample_rate=24000'',
      headers = [(lit ''Authorization'', lit ''Token '' @ DEEPGRAM_API_KEY cfg),
                 (lit ''Content-Type'', lit ''application/json'')],
      json_body = JObj [(lit ''text'', JStr (text' request))]\<rparr>"

text \<open>
  \<open>with open(path, "wb") as f: f.write(data)\<close>. When \<open>open\<close> raises, the file is as
  before; once it has succeeded the file is truncated, and holds the bytes written by
  the time the write raises or completes.
\<close>

definition write_file :: "world \<Rightarrow> str \<Rightarrow> bytes \<Rightarrow> exn option \<times> world" where
  "write_file w path data =
     (case faults w path of
        None \<Rightarrow> (None, w\<lparr>files := (files w)(path \<mapsto> data)\<rparr>)
      | Some (OpenFails msg) \<Rightarrow> (Some (PyError (lit ''OSError'') msg), w)
      | Some (WriteFails msg n) \<Rightarrow>
          (Some (PyError (lit ''OSError'') msg), w\<lparr>files := (files w)(path \<mapsto> take n data)\<rparr>))"

text \<open>
  The body of the \<open>try\<close> block after \<open>requests.post\<close>: the error object on a status
  other than 200, else the file is written, which may raise, and a \<open>FileResponse\<close>
  on it returned. The two \<open>print\<close> calls write to standard output only and are left
  out.
\<close>

definition narrate_try :: "exn + response \<Rightarrow> world \<Rightarrow> (exn + ret) \<times> world" where
  "narrate_try posted w =
     (case posted of
        Inl e \<Rightarrow> (Inl e, w)
      | Inr resp \<Rightarrow>
          if status_code resp \<noteq> 200
          then (Inr (Dict [(lit ''error'', JStr (lit ''Deepgram API Error'')),
                           (lit ''details'', JStr (response_text resp))]), w)
          else (case write_file w (lit ''output.wav'') (content resp) of
                  (Some e, w') \<Rightarrow> (Inl e, w')
                | (None, w') \<Rightarrow>
                    (Inr (FileResponse (lit ''output.wav'') (lit ''audio/wav'')
                            (lit ''narration.wav'')), w')))"

fun narrate_except :: "(int \<Rightarrow> str \<Rightarrow> str) \<Rightarrow> exn + ret \<Rightarrow> exn + ret" where
  "narrate_except hstr (Inr r) = Inr r"
| "narrate_except hstr (Inl (RequestException m)) =
     Inl (HTTPException 500 (lit ''Failed to connect to Deepgram API: '' @ m))"
| "narrate_except hstr (Inl e) =
     Inl (HTTPException 500 (lit ''An unexpected error occurred: '' @ str_exn hstr e))"

definition narrate_story ::
  "(int \<Rightarrow> str \<Rightarrow> str) \<Rightarrow> (outbound \<Rightarrow> exn + response) \<Rightarrow> settings \<Rightarrow> NarrationRequest \<Rightarrow> world
     \<Rightarrow> (exn + ret) \<times> world" where
  "narrate_story hstr post cfg request w =
     (if strip (text' request) = []
      then (Inl (HTTPException 400 (lit ''Text is required for narration'')), w)
      else (let w1 = w\<lparr>calls := calls w @ [narrate_call cfg request]\<rparr>;
                (r, w2) = narrate_try (post (narrate_call cfg request)) w1
            in (narrate_except hstr r, w2)))"

section \<open>What the caller sees\<close>

text \<open>
  FastAPI turns an \<open>HTTPException\<close> into a response with its status code and the body
  \<open>{"detail": ...}\<close>, a returned \<open>dict\<close> into a 200 JSON response, and sends a
  \<open>FileResponse\<close> with status 200 by reading the file at its path. The file is read
  when the response is sent, after the handler has returned, so \<open>http_body\<close> takes
  the world of that moment.
\<close>

datatype body = JsonBody json | TextBody str | FileBody bytes | NoFile

fun http_status :: "exn + ret \<Rightarrow> int" where
  "http_status (Inl (HTTPException s d)) = s"
| "http_status (Inl e) = 500"
| "http_status (Inr r) = 200"

fun http_body :: "world \<Rightarrow> exn + ret \<Rightarrow> body" where
  "http_body w (Inl (HTTPException s d)) = JsonBody (JObj [(lit ''detail'', JStr d)])"
| "http_body w (Inl e) = TextBody (lit ''Internal Server Error'')"
| "http_body w (Inr (Dict kvs)) = JsonBody (JObj kvs)"
| "http_body w (Inr (FileResponse path media_type filename)) =
     (case files w path of None \<Rightarrow> NoFile | Some b \<Rightarrow> FileBody b)"

section \<open>A mocked upstream and fixed inputs\<close>

text \<open>A mocked transport that answers every call with the same response.\<close>

definition mock_post :: "response \<Rightarrow> outbound \<Rightarrow> exn + response" where
  "mock_post resp call = Inr resp"

definition test_settings :: settings where
  "test_settings = \<lparr>GEMINI_API_KEY = lit ''gemini-key'', DEEPGRAM_API_KEY = lit ''deepgram-key''\<rparr>"

definition empty_world :: world where
  "empty_world = \<lparr>calls = [], files = Map.empty, faults = Map.empty\<rparr>"

definition old_audio_world :: world where
  "old_audio_world =
     \<lparr>calls = [], files = [lit ''output.wav'' \<mapsto> ''RIFFold''], faults = Map.empty\<rparr>"



text \<open>
  \<open>response.json()\<close> on a body that is not JSON: requests raises its own
  \<open>JSONDecodeError\<close>, which is a \<open>RequestException\<close>.
\<close>

definition not_json :: "exn + json" where
  "not_json = Inl (RequestException (lit ''Expecting value: line 1 column 1 (char 0)''))"

definition json_response :: "json \<Rightarrow> response" where
  "json_response j = \<lparr>status_code = 200, response_text = [], content = [], json_result = Inr j\<rparr>"

definition story_document :: "str \<Rightarrow> json" where
  "story_document t =
     JObj [(lit ''candidates'',
            JArr [JObj [(lit ''content'',
                         JObj [(lit ''parts'', JArr [JObj [(lit ''text'', JStr t)]])])]])]"

definition quota_response :: response where
  "quota_response =
     \<lparr>status_code = 429, response_text = lit ''quota exceeded'', content = ''quota exceeded'',
      json_result = not_json\<rparr>"

definition audio_response :: response where
  "audio_response =
     \<lparr>status_code = 200, response_text = lit ''RIFF....'', content = ''RIFF....'',
      json_result = not_json\<rparr>"

definition deepgram_failure :: response where
  "deepgram_failure =
     \<lparr>status_code = 401, response_text = lit ''Invalid credentials'', content = ''Invalid credentials'',
      json_result = not_json\<rparr>"

section \<open>Helper lemmas\<close>

lemma lit_eq_iff [simp]: "lit a = lit b \<longleftrightarrow> a = b"
  by (simp add: lit_def inj_map_eq_map[OF inj_of_char])

lemma lit_Nil [simp]: "lit s = [] \<longleftrightarrow> s = []"
  by (simp add: lit_def)

lemma dropWhile_all_iff: "(\<forall>x \<in> set (dropWhile P xs). P x) \<longleftrightarrow> (\<forall>x \<in> set xs. P x)"
proof
  assume a: "\<forall>x \<in> set (dropWhile P xs). P x"
  have "dropWhile P xs = []"
  proof (rule ccontr)
    assume ne: "dropWhile P xs \<noteq> []"
    then have "\<not> P (hd (dropWhile P xs))" by (rule hd_dropWhile)
    moreover from ne have "hd (dropWhile P xs) \<in> set (dropWhile P xs)" by simp
    ultimately show False using a by blast
  qed
  then show "\<forall>x \<in> set xs. P x" by (simp add: dropWhile_eq_Nil_conv)
next
  assume "\<forall>x \<in> set xs. P x"
  then show "\<forall>x \<in> set (dropWhile P xs). P x" by (blast dest: set_dropWhileD)
qed

lemma strip_Nil_iff: "strip s = [] \<longleftrightarrow> (\<forall>c \<in> set s. isspace c)"
  by (simp add: strip_def dropWhile_eq_Nil_conv dropWhile_all_iff)

lemma generate_story_posted:
  "prompt rq \<noteq> [] \<Longrightarrow>
   generate_story hstr post cfg rq w =
     (generate_except hstr (generate_try (post (generate_call cfg rq))),
      w\<lparr>calls := calls w @ [generate_call cfg rq]\<rparr>)"
  by (simp add: generate_story_def)

lemma generate_try_ok:
  "status_code resp = 200 \<Longrightarrow> json_result resp = Inr j \<Longrightarrow> extract_story j = Inr t \<Longrightarrow>
   generate_try (Inr resp) = Inr (Dict [(lit ''story'', t)])"
  by (simp add: generate_try_def)

lemma generate_try_raise:
  "status_code resp = 200 \<Longrightarrow> json_result resp = Inr j \<Longrightarrow> extract_story j = Inl e \<Longrightarrow>
   generate_try (Inr resp) = Inl e"
  by (simp add: generate_try_def)

lemma generate_try_upstream_error:
  "status_code resp \<noteq> 200 \<Longrightarrow>
   generate_try (Inr resp) =
     Inl (HTTPException (status_code resp) (lit ''Gemini API Error: '' @ response_text resp))"
  by (simp add: generate_try_def)

lemma generate_upstream_error_is_500:
  "prompt rq \<noteq> [] \<Longrightarrow> post (generate_call cfg rq) = Inr resp \<Longrightarrow> status_code resp \<noteq> 200 \<Longrightarrow>
   fst (generate_story hstr post cfg rq w) =
     Inl (HTTPException 500
            (lit ''An unexpected error occurred: ''
               @ hstr (status_code resp) (lit ''Gemini API Error: '' @ response_text resp)))"
  by (simp add: generate_story_posted generate_try_upstream_error)

lemma extract_story_full: "extract_story (story_document t) = Inr (JStr t)"
  by (simp add: extract_story_def story_document_def)

lemma extract_story_no_candidates:
  "map_of d (lit ''candidates'') = None \<Longrightarrow>
   extract_story (JObj d) = Inr (JStr (lit ''No story generated.''))"
  by (simp add: extract_story_def)

lemma extract_story_no_content:
  "map_of d (lit ''candidates'') = Some (JArr (JObj c # cs)) \<Longrightarrow> map_of c (lit ''content'') = None \<Longrightarrow>
   extract_story (JObj d) = Inr (JStr (lit ''No story generated.''))"
  by (simp add: extract_story_def)

lemma extract_story_no_parts:
  "map_of d (lit ''candidates'') = Some (JArr (JObj c # cs)) \<Longrightarrow>
   map_of c (lit ''content'') = Some (JObj k) \<Longrightarrow> map_of k (lit ''parts'') = None \<Longrightarrow>
   extract_story (JObj d) = Inr (JStr (lit ''No story generated.''))"
  by (simp add: extract_story_def)

lemma extract_story_no_text:
  "map_of d (lit ''candidates'') = Some (JArr (JObj c # cs)) \<Longrightarrow>
   map_of c (lit ''content'') = Some (JObj k) \<Longrightarrow>
   map_of k (lit ''parts'') = Some (JArr (JObj p # ps)) \<Longrightarrow> map_of p (lit ''text'') = None \<Longrightarrow>
   extract_story (JObj d) = Inr (JStr (lit ''No story generated.''))"
  by (simp add: extract_story_def)

lemma extract_story_empty_candidates:
  "map_of d (lit ''candidates'') = Some (JArr []) \<Longrightarrow>
   extract_story (JObj d) = Inl (PyError (lit ''IndexError'') (lit ''list index out of range''))"
  by (simp add: extract_story_def)

lemma extract_story_empty_parts:
  "map_of d (lit ''candidates'') = Some (JArr (JObj c # cs)) \<Longrightarrow>
   map_of c (lit ''content'') = Some (JObj k) \<Longrightarrow> map_of k (lit ''parts'') = Some (JArr []) \<Longrightarrow>
   extract_story (JObj d) = Inl (PyError (lit ''IndexError'') (lit ''list index out of range''))"
  by (simp add: extract_story_def)

lemma narrate_story_posted:
  "strip (text' rq) \<noteq> [] \<Longrightarrow>
   narrate_story hstr post cfg rq w =
     (narrate_except hstr
        (fst (narrate_try (post (narrate_call cfg rq)) (w\<lparr>calls := calls w @ [narrate_call cfg rq]\<rparr>))),
      snd (narrate_try (post (narrate_call cfg rq)) (w\<lparr>calls := calls w @ [narrate_call cfg rq]\<rparr>)))"
  by (simp add: narrate_story_def Let_def split: prod.splits)

lemma narrate_try_files:
  "posted = Inl e \<or> (\<exists>resp. posted = Inr resp \<and> status_code resp \<noteq> 200) \<Longrightarrow>
   files (snd (narrate_try posted w)) = files w"
  by (auto simp: narrate_try_def)

lemma http_body_files: "files u = files v \<Longrightarrow> http_body u r = http_body v r"
  by (induction u r rule: http_body.induct) simp_all

lemma strip_hi: "strip (lit ''hi'') = lit ''hi''"
  by (simp add: strip_def isspace_def lit_def)

section \<open>Claims\<close>

text \<open>
  C1. The claim: a non-success upstream status on \<open>/generate\<close> gives an error response
  with the upstream status code and the upstream body in its message. The handler raises
  that \<open>HTTPException\<close> inside its own \<open>try\<close> block, where the last \<open>except\<close> clause
  catches it: an upstream 429 with body "quota exceeded" reaches the caller as a 500.
\<close>

theorem generate_upstream_429_returns_500:
  "fst (generate_story starlette_str (mock_post quota_response) test_settings
          \<lparr>prompt = lit ''hi''\<rparr> empty_world)
     = Inl (HTTPException 500
              (lit ''An unexpected error occurred: 429: Gemini API Error: quota exceeded''))
   \<and> http_status (fst (generate_story starlette_str (mock_post quota_response) test_settings
          \<lparr>prompt = lit ''hi''\<rparr> empty_world)) \<noteq> status_code quota_response"
  by (simp add: generate_story_def generate_try_def mock_post_def quota_response_def
      starlette_str_def str_int_def str_nat.simps lit_def)

text \<open>
  C2, as stated, fails: with an empty \<open>candidates\<close> list the handler does not return
  the placeholder but a 500 error, the \<open>IndexError\<close> of \<open>[0]\<close> being caught by the last
  \<open>except\<close> clause.
\<close>

theorem generate_empty_candidates_counterexample:
  "fst (generate_story starlette_str
          (mock_post (json_response (JObj [(lit ''candidates'', JArr [])]))) test_settings
          \<lparr>prompt = lit ''hi''\<rparr> empty_world)
     = Inl (HTTPException 500 (lit ''An unexpected error occurred: list index out of range''))
   \<and> fst (generate_story starlette_str
          (mock_post (json_response (JObj [(lit ''candidates'', JArr [])]))) test_settings
          \<lparr>prompt = lit ''hi''\<rparr> empty_world)
     \<noteq> Inr (Dict [(lit ''story'', JStr (lit ''No story generated.''))])"
  by (simp add: generate_story_def generate_try_def mock_post_def json_response_def
      extract_story_def lit_def)

text \<open>
  C2, amended. For a status-200 upstream response whose JSON body is an object: if the
  \<open>candidates\<close> key is absent, or the first candidate is an object without \<open>content\<close>,
  or \<open>content\<close> is an object without \<open>parts\<close>, or the first part is an object without
  \<open>text\<close> (an empty object at any of these levels included), \<open>/generate\<close> returns
  \<open>{"story": "No story generated."}\<close>.
\<close>

theorem generate_missing_key_placeholder:
  assumes "prompt rq \<noteq> []"
    and "post (generate_call cfg rq) = Inr resp"
    and "status_code resp = 200"
    and "json_result resp = Inr (JObj d)"
    and "map_of d (lit ''candidates'') = None \<or>
         (\<exists>c cs. map_of d (lit ''candidates'') = Some (JArr (JObj c # cs)) \<and>
            (map_of c (lit ''content'') = None \<or>
             (\<exists>k. map_of c (lit ''content'') = Some (JObj k) \<and>
                (map_of k (lit ''parts'') = None \<or>
                 (\<exists>p ps. map_of k (lit ''parts'') = Some (JArr (JObj p # ps)) \<and>
                    map_of p (lit ''text'') = None)))))"
  shows "fst (generate_story hstr post cfg rq w)
           = Inr (Dict [(lit ''story'', JStr (lit ''No story generated.''))])
         \<and> http_status (fst (generate_story hstr post cfg rq w)) = 200"
proof -
  have "extract_story (JObj d) = Inr (JStr (lit ''No story generated.''))"
    using assms(5)
    by (elim disjE exE conjE)
       (simp_all add: extract_story_no_candidates extract_story_no_content
          extract_story_no_parts extract_story_no_text)
  then have "generate_try (Inr resp) = Inr (Dict [(lit ''story'', JStr (lit ''No story generated.''))])"
    using assms(3,4) by (rule generate_try_ok[rotated 2])
  then show ?thesis
    using assms(1,2) by (simp add: generate_story_posted)
qed

theorem generate_missing_key_placeholder_witness:
  "fst (generate_story starlette_str (mock_post (json_response (JObj []))) test_settings
          \<lparr>prompt = lit ''hi''\<rparr> empty_world)
     = Inr (Dict [(lit ''story'', JStr (lit ''No story generated.''))])
   \<and> fst (generate_story starlette_str
          (mock_post (json_response
             (JObj [(lit ''candidates'', JArr [JObj [(lit ''content'', JObj [])]])])))
          test_settings \<lparr>prompt = lit ''hi''\<rparr> empty_world)
     = Inr (Dict [(lit ''story'', JStr (lit ''No story generated.''))])"
  using generate_missing_key_placeholder
          [of "\<lparr>prompt = lit ''hi''\<rparr>" "mock_post (json_response (JObj []))" test_settings
              "json_response (JObj [])" "[]" starlette_str empty_world]
        generate_missing_key_placeholder
          [of "\<lparr>prompt = lit ''hi''\<rparr>"
              "mock_post (json_response
                 (JObj [(lit ''candidates'', JArr [JObj [(lit ''content'', JObj [])]])]))"
              test_settings
              "json_response (JObj [(lit ''candidates'', JArr [JObj [(lit ''content'', JObj [])]])])"
              "[(lit ''candidates'', JArr [JObj [(lit ''content'', JObj [])]])]"
              starlette_str empty_world]
  by (simp add: mock_post_def json_response_def)

text \<open>
  C3, as stated, fails: the guard of \<open>/generate\<close> is \<open>not request.prompt\<close>, which a
  prompt of one space passes, so the outbound call is made and its result returned.
\<close>

theorem generate_blank_prompt_counterexample:
  "list_all isspace (lit '' '')
   \<and> calls (snd (generate_story starlette_str (mock_post (json_response (story_document (lit ''Once upon a time''))))
                    test_settings \<lparr>prompt = lit '' ''\<rparr> empty_world))
       = [generate_call test_settings \<lparr>prompt = lit '' ''\<rparr>]
   \<and> http_status (fst (generate_story starlette_str (mock_post (json_response (story_document (lit ''Once upon a time''))))
                    test_settings \<lparr>prompt = lit '' ''\<rparr> empty_world)) = 200"
  by (simp add: generate_story_def generate_try_def mock_post_def json_response_def
      extract_story_full empty_world_def isspace_def lit_def)

text \<open>
  C3, amended. For every \<open>/generate\<close> request whose prompt is the empty string, the
  handler returns a 400 error and makes no outbound call.
\<close>

theorem generate_empty_prompt_rejected:
  "prompt rq = [] \<Longrightarrow>
   fst (generate_story hstr post cfg rq w) = Inl (HTTPException 400 (lit ''Prompt is required''))
   \<and> http_status (fst (generate_story hstr post cfg rq w)) = 400
   \<and> snd (generate_story hstr post cfg rq w) = w"
  by (simp add: generate_story_def)

theorem generate_empty_prompt_rejected_witness:
  "prompt \<lparr>prompt = []\<rparr> = []
   \<and> http_status (fst (generate_story starlette_str (mock_post (json_response (story_document (lit ''Once upon a time''))))
                    test_settings \<lparr>prompt = []\<rparr> empty_world)) = 400
   \<and> calls (snd (generate_story starlette_str (mock_post (json_response (story_document (lit ''Once upon a time''))))
                    test_settings \<lparr>prompt = []\<rparr> empty_world)) = []"
  using generate_empty_prompt_rejected
          [of "\<lparr>prompt = []\<rparr>" starlette_str
              "mock_post (json_response (story_document (lit ''Once upon a time'')))"
              test_settings empty_world]
  by (simp add: empty_world_def)






text \<open>
  C6. When the upstream generation response has status 200 and the JSON body
  \<open>{"candidates":[{"content":{"parts":[{"text": T}]}}]}\<close>, \<open>/generate\<close> returns
  \<open>{"story": T}\<close>.
\<close>

theorem generate_extracts_story_text:
  assumes "prompt rq \<noteq> []"
    and "post (generate_call cfg rq) = Inr resp"
    and "status_code resp = 200"
    and "json_result resp =
           Inr (JObj [(lit ''candidates'',
                       JArr [JObj [(lit ''content'',
                                    JObj [(lit ''parts'', JArr [JObj [(lit ''text'', JStr T)]])])]])])"
  shows "fst (generate_story hstr post cfg rq w) = Inr (Dict [(lit ''story'', JStr T)])
         \<and> http_status (fst (generate_story hstr post cfg rq w)) = 200
         \<and> http_body (snd (generate_story hstr post cfg rq w)) (fst (generate_story hstr post cfg rq w))
           = JsonBody (JObj [(lit ''story'', JStr T)])"
proof -
  have "generate_try (Inr resp) = Inr (Dict [(lit ''story'', JStr T)])"
    using assms(3,4) extract_story_full[of T]
    by (simp add: generate_try_def story_document_def)
  then show ?thesis
    using assms(1,2) by (simp add: generate_story_posted)
qed

theorem generate_extracts_story_text_witness:
  "prompt \<lparr>prompt = lit ''hi''\<rparr> \<noteq> []
   \<and> fst (generate_story starlette_str
            (mock_post (json_response (story_document (lit ''Once upon a time''))))
            test_settings \<lparr>prompt = lit ''hi''\<rparr> empty_world)
       = Inr (Dict [(lit ''story'', JStr (lit ''Once upon a time''))])"
  using generate_extracts_story_text
          [of "\<lparr>prompt = lit ''hi''\<rparr>"
              "mock_post (json_response (story_document (lit ''Once upon a time'')))"
              test_settings "json_response (story_document (lit ''Once upon a time''))"
              "lit ''Once upon a time''" starlette_str empty_world]
  by (simp add: mock_post_def json_response_def story_document_def)

text \<open>
  C7. For every \<open>/narrate\<close> request whose text is empty or consists of white space only
  (so that stripping leaves nothing), the handler returns a 400 error and makes no
  outbound call.
\<close>

theorem narrate_blank_text_rejected:
  "\<forall>c \<in> set (text' rq). isspace c \<Longrightarrow>
   strip (text' rq) = []
   \<and> fst (narrate_story hstr post cfg rq w)
       = Inl (HTTPException 400 (lit ''Text is required for narration''))
   \<and> http_status (fst (narrate_story hstr post cfg rq w)) = 400
   \<and> snd (narrate_story hstr post cfg rq w) = w"
  by (simp add: narrate_story_def strip_Nil_iff)

theorem narrate_blank_text_rejected_witness:
  "list_all isspace (text' \<lparr>text' = [32, 9, 10, 160, 8195]\<rparr>)
   \<and> http_status (fst (narrate_story starlette_str (mock_post audio_response) test_settings
                          \<lparr>text' = [32, 9, 10, 160, 8195]\<rparr> empty_world)) = 400
   \<and> calls (snd (narrate_story starlette_str (mock_post audio_response) test_settings
                    \<lparr>text' = [32, 9, 10, 160, 8195]\<rparr> empty_world)) = []
   \<and> http_status (fst (narrate_story starlette_str (mock_post audio_response) test_settings
                          \<lparr>text' = []\<rparr> empty_world)) = 400"
  using narrate_blank_text_rejected
          [of "\<lparr>text' = [32, 9, 10, 160, 8195]\<rparr>" starlette_str "mock_post audio_response"
              test_settings empty_world]
        narrate_blank_text_rejected
          [of "\<lparr>text' = []\<rparr>" starlette_str "mock_post audio_response" test_settings empty_world]
  by (simp add: isspace_def empty_world_def list_all_iff)

text \<open>
  C8. At start-up the two credentials are read from the environment. If either is
  missing or the empty string, start-up ends with the \<open>ValueError\<close> and no settings
  (so no application) exist; if both are non-empty, start-up yields them.
\<close>

theorem startup_requires_both_keys:
  "(load_dotenv dotenv environ (lit ''GEMINI_API_KEY'') \<in> {None, Some []}
      \<or> load_dotenv dotenv environ (lit ''DEEPGRAM_API_KEY'') \<in> {None, Some []}
    \<longrightarrow> startup dotenv environ
          = Inl (PyError (lit ''ValueError'') (lit ''Missing API keys! Check your .env file.'')))
   \<and> (load_dotenv dotenv environ (lit ''GEMINI_API_KEY'') = Some g \<and> g \<noteq> []
      \<and> load_dotenv dotenv environ (lit ''DEEPGRAM_API_KEY'') = Some d \<and> d \<noteq> []
    \<longrightarrow> startup dotenv environ = Inr \<lparr>GEMINI_API_KEY = g, DEEPGRAM_API_KEY = d\<rparr>)"
  by (auto simp: startup_def py_not_def Let_def)

theorem startup_requires_both_keys_witness:
  "startup Map.empty [lit ''GEMINI_API_KEY'' \<mapsto> lit ''g'']
     = Inl (PyError (lit ''ValueError'') (lit ''Missing API keys! Check your .env file.''))
   \<and> startup Map.empty [lit ''GEMINI_API_KEY'' \<mapsto> lit ''g'', lit ''DEEPGRAM_API_KEY'' \<mapsto> []]
     = Inl (PyError (lit ''ValueError'') (lit ''Missing API keys! Check your .env file.''))
   \<and> startup [lit ''DEEPGRAM_API_KEY'' \<mapsto> lit ''d''] [lit ''GEMINI_API_KEY'' \<mapsto> lit ''g'']
     = Inr \<lparr>GEMINI_API_KEY = lit ''g'', DEEPGRAM_API_KEY = lit ''d''\<rparr>"
  using startup_requires_both_keys
          [of Map.empty "[lit ''GEMINI_API_KEY'' \<mapsto> lit ''g'']" "lit ''g''" "lit ''d''"]
        startup_requires_both_keys
          [of Map.empty "[lit ''GEMINI_API_KEY'' \<mapsto> lit ''g'', lit ''DEEPGRAM_API_KEY'' \<mapsto> []]"
              "lit ''g''" "lit ''d''"]
        startup_requires_both_keys
          [of "[lit ''DEEPGRAM_API_KEY'' \<mapsto> lit ''d'']" "[lit ''GEMINI_API_KEY'' \<mapsto> lit ''g'']"
              "lit ''g''" "lit ''d''"]
  by (simp add: load_dotenv_def)

text \<open>
  C9. The response of \<open>/generate\<close> is a function of the request, the settings and the
  upstream's answer alone: it is the same in every world, so the same when the request
  is repeated in the world the first evaluation left, and the handler changes no file.
\<close>

theorem generate_repeatable:
  "fst (generate_story hstr post cfg rq w1) = fst (generate_story hstr post cfg rq w2)
   \<and> fst (generate_story hstr post cfg rq (snd (generate_story hstr post cfg rq w)))
       = fst (generate_story hstr post cfg rq w)
   \<and> http_body (snd (generate_story hstr post cfg rq (snd (generate_story hstr post cfg rq w))))
               (fst (generate_story hstr post cfg rq (snd (generate_story hstr post cfg rq w))))
       = http_body (snd (generate_story hstr post cfg rq w)) (fst (generate_story hstr post cfg rq w))
   \<and> files (snd (generate_story hstr post cfg rq w)) = files w"
proof -
  have r: "fst (generate_story hstr post cfg rq u) = fst (generate_story hstr post cfg rq v)" for u v
    by (simp add: generate_story_def)
  have f: "files (snd (generate_story hstr post cfg rq u)) = files u" for u
    by (simp add: generate_story_def)
  have "files (snd (generate_story hstr post cfg rq (snd (generate_story hstr post cfg rq w))))
          = files (snd (generate_story hstr post cfg rq w))"
    by (simp only: f)
  then have b: "http_body (snd (generate_story hstr post cfg rq (snd (generate_story hstr post cfg rq w))))
                  (fst (generate_story hstr post cfg rq w))
                = http_body (snd (generate_story hstr post cfg rq w)) (fst (generate_story hstr post cfg rq w))"
    by (rule http_body_files)
  show ?thesis
    using r[of w1 w2] r[of "snd (generate_story hstr post cfg rq w)" w] b f[of w]
    by simp
qed

text \<open>
  C10. When the outbound call of \<open>/narrate\<close> completes with a status other than 200,
  the handler returns without writing: the files, \<open>output.wav\<close> among them, are as
  before.
\<close>

theorem narrate_upstream_error_keeps_file:
  assumes "strip (text' rq) \<noteq> []"
    and "post (narrate_call cfg rq) = Inr resp"
    and "status_code resp \<noteq> 200"
  shows "files (snd (narrate_story hstr post cfg rq w)) = files w"
  using assms by (simp add: narrate_story_posted narrate_try_def)

theorem narrate_upstream_error_keeps_file_witness:
  "strip (text' \<lparr>text' = lit ''hi''\<rparr>) \<noteq> []
   \<and> status_code deepgram_failure \<noteq> 200
   \<and> files (snd (narrate_story starlette_str (mock_post deepgram_failure) test_settings
                    \<lparr>text' = lit ''hi''\<rparr> old_audio_world)) (lit ''output.wav'')
       = Some ''RIFFold''"
  using narrate_upstream_error_keeps_file
          [of "\<lparr>text' = lit ''hi''\<rparr>" "mock_post deepgram_failure" test_settings
              deepgram_failure starlette_str old_audio_world]
  by (simp add: strip_hi mock_post_def deepgram_failure_def old_audio_world_def)

end
